theory Spec2Isabelle
  imports Main
begin

section \<open>Errors\<close>

text \<open>
  Every failure of \<^verbatim>\<open>register_array.py\<close> is a Python \<^verbatim>\<open>ValueError\<close>; the
  exceptions differ only in their message. The model keeps the exception class and tags
  it with the place that raised it:
  \<^item> \<open>AtomicInvalid\<close>: \<^verbatim>\<open>RegisterArray.__init__\<close>, "atomic must be None or ...";
  \<^item> \<open>ModeMismatch\<close>: \<^verbatim>\<open>append_register\<close>, "Cannot append register with mode ...";
  \<^item> \<open>RegisterNotFound\<close>: \<^verbatim>\<open>get_register\<close>, "Could not find register ...";
  \<^item> \<open>IndexOutOfRange\<close>: \<^verbatim>\<open>get_start_index\<close>, "Index ... out of range ...";
  \<^item> \<open>NotAMember\<close>, \<open>CodeHasNoMember\<close>: the enumeration type's two conversions.

  \<^verbatim>\<open>TypeError\<close> is what Python's \<^verbatim>\<open>enum\<close> raises when a class body uses a
  member name twice.
\<close>

datatype raise_site =
  AtomicInvalid | ModeMismatch | RegisterNotFound | IndexOutOfRange
  | NotAMember | CodeHasNoMember

datatype error = ValueError raise_site | TypeError

section \<open>Registers\<close>

text \<open>
  Modelled from the spec: \<^verbatim>\<open>register.py\<close> is not among the sources. The class
  \<^verbatim>\<open>Register\<close> is used by \<^verbatim>\<open>register_array.py\<close> only through its constructor
  \<^verbatim>\<open>Register(name, index, mode, description)\<close> and the attributes \<^verbatim>\<open>name\<close> and
  \<^verbatim>\<open>mode\<close>; following the spec's data model the constructor stores its four arguments.
  The fields of a register are not needed here.
\<close>

record register =
  reg_name :: string
  reg_index :: int
  reg_mode :: string
  reg_description :: string

definition Register :: "string \<Rightarrow> int \<Rightarrow> string \<Rightarrow> string \<Rightarrow> register" where
  "Register name index mode description =
     \<lparr>reg_name = name, reg_index = index, reg_mode = mode, reg_description = description\<rparr>"

section \<open>Register arrays\<close>

text \<open>
  The attributes of \<^verbatim>\<open>RegisterArray\<close>, in the order \<^verbatim>\<open>__init__\<close> assigns them.
  \<^verbatim>\<open>atomic\<close> is \<^verbatim>\<open>None\<close> or a string; \<^verbatim>\<open>length\<close> is called \<open>array_length\<close>
  since \<open>length\<close> is the length of a list.
\<close>

record register_array =
  atomic :: "string option"
  name :: string
  base_index :: int
  array_length :: int
  description :: string
  registers :: "register list"

definition RegisterArray ::
  "string \<Rightarrow> int \<Rightarrow> int \<Rightarrow> string \<Rightarrow> string option \<Rightarrow> error + register_array" where
  "RegisterArray nm base len descr atom =
     (if atom \<noteq> None \<and> atom \<noteq> Some ''row'' \<and> atom \<noteq> Some ''all''
      then Inl (ValueError AtomicInvalid)
      else Inr \<lparr>atomic = atom, name = nm, base_index = base, array_length = len,
                description = descr, registers = []\<rparr>)"

text \<open>Python's truth value of \<^verbatim>\<open>self.atomic\<close>: \<^verbatim>\<open>None\<close> and the empty string are false.\<close>

definition truthy :: "string option \<Rightarrow> bool" where
  "truthy a = (case a of None \<Rightarrow> False | Some s \<Rightarrow> s \<noteq> [])"

text \<open>
  \<^verbatim>\<open>append_register\<close> mutates \<^verbatim>\<open>self.registers\<close> and either returns the new register
  or raises. The model returns the outcome together with the array as it is when the call
  is left, so that a raise after a mutation would show.
\<close>

definition mode_conflict :: "register_array \<Rightarrow> string \<Rightarrow> bool" where
  "mode_conflict ra mode =
     (case registers ra of
        [] \<Rightarrow> False
      | first # _ \<Rightarrow> truthy (atomic ra) \<and> mode \<noteq> reg_mode first)"

definition append_register ::
  "register_array \<Rightarrow> string \<Rightarrow> string \<Rightarrow> string \<Rightarrow> (error + register) \<times> register_array" where
  "append_register ra nm mode descr =
     (if mode_conflict ra mode then (Inl (ValueError ModeMismatch), ra)
      else
        let index = int (length (registers ra));
            register = Register nm index mode descr
        in (Inr register, ra\<lparr>registers := registers ra @ [register]\<rparr>))"

text \<open>The loop of \<^verbatim>\<open>get_register\<close>: the first register of that name, in list order.\<close>

fun find_register :: "register list \<Rightarrow> string \<Rightarrow> error + register" where
  "find_register [] nm = Inl (ValueError RegisterNotFound)"
| "find_register (register # rest) nm =
     (if reg_name register = nm then Inr register else find_register rest nm)"

definition get_register :: "register_array \<Rightarrow> string \<Rightarrow> error + register" where
  "get_register ra nm = find_register (registers ra) nm"

text \<open>The property \<^verbatim>\<open>index\<close>: the highest index occupied by the array.\<close>

definition index :: "register_array \<Rightarrow> int" where
  "index ra = base_index ra + array_length ra * int (length (registers ra)) - 1"

definition get_start_index :: "register_array \<Rightarrow> int \<Rightarrow> error + int" where
  "get_start_index ra array_index =
     (if array_index \<ge> array_length ra then Inl (ValueError IndexOutOfRange)
      else Inr (base_index ra + array_index * int (length (registers ra))))"

text \<open>
  The arrays a program can build: \<^verbatim>\<open>RegisterArray(...)\<close> followed by any number of
  \<^verbatim>\<open>append_register\<close> calls (a call that raised leaves the array as it was).
\<close>

inductive constructed :: "register_array \<Rightarrow> bool" where
  init: "RegisterArray nm base len descr atom = Inr ra \<Longrightarrow> constructed ra"
| append: "constructed ra \<Longrightarrow> constructed (snd (append_register ra nm mode descr))"

text \<open>
  The array of the spec's second scenario: length 3, two registers, atomicity "row".
\<close>

definition scenario_array :: "int \<Rightarrow> register_array" where
  "scenario_array base =
     \<lparr>atomic = Some ''row'', name = ''dummies'', base_index = base, array_length = 3,
      description = '''',
      registers = [Register ''first'' 0 ''r_w'' '''', Register ''second'' 1 ''r_w'' '''']\<rparr>"

section \<open>Enumerations\<close>

text \<open>
  A member of a Python \<^verbatim>\<open>IntEnum\<close> class: its name and its value. A class is the list
  of its members in declaration order (\<^verbatim>\<open>cls.__members__\<close>).
\<close>

type_synonym enum_member = "string \<times> int"

text \<open>
  \<^verbatim>\<open>SequentialEnum.__new__\<close>: the value of the member being created is the number of
  members the class has so far. (The arguments only reach \<^verbatim>\<open>int.__new__\<close>; the
  \<^verbatim>\<open>_value_\<close> of the member is overwritten.)
\<close>

definition SequentialEnum_new :: "enum_member list \<Rightarrow> int" where
  "SequentialEnum_new members = int (length members)"

text \<open>
  Python creates the members of a class body one by one, in declaration order: each is
  made by \<^verbatim>\<open>__new__\<close> and then entered in \<^verbatim>\<open>__members__\<close> under its name. A
  name used twice is refused.
\<close>

fun declare_members :: "enum_member list \<Rightarrow> string list \<Rightarrow> error + enum_member list" where
  "declare_members members [] = Inr members"
| "declare_members members (nm # rest) =
     (if nm \<in> set (map fst members) then Inl TypeError
      else declare_members (members @ [(nm, SequentialEnum_new members)]) rest)"

definition sequential_enum_class :: "string list \<Rightarrow> error + enum_member list" where
  "sequential_enum_class names = declare_members [] names"

text \<open>\<^verbatim>\<open>ExampleEnum\<close> of \<^verbatim>\<open>test_enum.py\<close>.\<close>

definition ExampleEnum :: "enum_member list" where
  "ExampleEnum = [(''A'', 2), (''B'', 3), (''C'', 6), (''D'', 12)]"

subsection \<open>The enumeration field type\<close>

text \<open>
  Modelled from the spec: \<^verbatim>\<open>register_field_type.py\<close>, which holds \<^verbatim>\<open>enum_bit_width\<close>
  and \<^verbatim>\<open>EnumType\<close>, is not among the sources. The spec gives the width as
  \<open>ceil(log2(member_count))\<close>, minimum 1; the encoding as the member's ordinal position
  (0-based, insertion order); and a failure when the value is not a member of the
  enumeration or the unsigned code has no corresponding member. The conversions take the
  bit width as the spec's signatures do. The spec's enumerations are not empty; on no
  member at all the width below is the minimum, 1.
\<close>

fun ceil_log2 :: "nat \<Rightarrow> nat" where
  "ceil_log2 n = (if n \<le> 1 then 0 else Suc (ceil_log2 ((n + 1) div 2)))"

declare ceil_log2.simps [simp del]

definition enum_bit_width :: "enum_member list \<Rightarrow> nat" where
  "enum_bit_width enum = max 1 (ceil_log2 (length enum))"

fun ordinal :: "enum_member list \<Rightarrow> enum_member \<Rightarrow> nat option" where
  "ordinal [] v = None"
| "ordinal (m # ms) v = (if m = v then Some 0 else map_option Suc (ordinal ms v))"

definition convert_to_unsigned_binary ::
  "enum_member list \<Rightarrow> nat \<Rightarrow> enum_member \<Rightarrow> error + int" where
  "convert_to_unsigned_binary enum bit_width v =
     (case ordinal enum v of
        None \<Rightarrow> Inl (ValueError NotAMember)
      | Some k \<Rightarrow> Inr (int k))"

definition convert_from_unsigned_binary ::
  "enum_member list \<Rightarrow> nat \<Rightarrow> int \<Rightarrow> error + enum_member" where
  "convert_from_unsigned_binary enum bit_width unsigned_binary =
     (if 0 \<le> unsigned_binary \<and> unsigned_binary < int (length enum)
      then Inr (enum ! nat unsigned_binary)
      else Inl (ValueError CodeHasNoMember))"

subsection \<open>Enumeration fields\<close>

text \<open>
  Python's \<^verbatim>\<open>format(v, "0{width}b")\<close> for an integer \<open>v\<close>: the binary digits of
  \<open>|v|\<close>, filled with zeros on the left up to \<open>width\<close> characters, the sign of a negative
  number first and counted in the width.
\<close>

fun bin_digits :: "nat \<Rightarrow> string" where
  "bin_digits n =
     (if n < 2 then [if n = 0 then CHR ''0'' else CHR ''1'']
      else bin_digits (n div 2) @ [if n mod 2 = 0 then CHR ''0'' else CHR ''1''])"

declare bin_digits.simps [simp del]

definition zero_fill :: "nat \<Rightarrow> string \<Rightarrow> string" where
  "zero_fill w s = replicate (w - length s) (CHR ''0'') @ s"

definition format_0b :: "nat \<Rightarrow> int \<Rightarrow> string" where
  "format_0b w v =
     (if v < 0 then CHR ''-'' # zero_fill (w - 1) (bin_digits (nat (- v)))
      else zero_fill w (bin_digits (nat v)))"



text \<open>
  Modelled from the spec: \<^verbatim>\<open>bit_vector.py\<close> is not among the sources. Following the
  spec's data model of a field, the constructor \<^verbatim>\<open>BitVector.__init__\<close> that
  \<^verbatim>\<open>EnumField.__init__\<close> calls stores its arguments; the test reads \<^verbatim>\<open>width\<close> and
  \<^verbatim>\<open>default_value\<close> back. The field type \<^verbatim>\<open>EnumType(enum)\<close> is kept as the
  enumeration it wraps.
\<close>

record bit_vector =
  field_name :: string
  field_base_index :: int
  field_description :: string
  width :: nat
  default_value :: string
  field_type :: "enum_member list"

definition BitVector ::
  "string \<Rightarrow> int \<Rightarrow> string \<Rightarrow> nat \<Rightarrow> string \<Rightarrow> enum_member list \<Rightarrow> bit_vector" where
  "BitVector nm base descr w dflt ftype =
     \<lparr>field_name = nm, field_base_index = base, field_description = descr, width = w,
      default_value = dflt, field_type = ftype\<rparr>"

text \<open>
  A member handed to a function as a value is an object: an \<^verbatim>\<open>int\<close> (the members of an
  \<^verbatim>\<open>IntEnum\<close> are integers) that carries its name and its \<^verbatim>\<open>_value_\<close>. The integer
  the object is (what \<^verbatim>\<open>int(m)\<close> gives) and its \<^verbatim>\<open>_value_\<close> (what \<^verbatim>\<open>m.value\<close>
  gives) are kept apart, since \<^verbatim>\<open>SequentialEnum.__new__\<close> sets them separately.
\<close>

record int_enum_member =
  member_name :: string
  member_value :: int
  member_int :: int

text \<open>
  \<^verbatim>\<open>int.__new__(cls, *args)\<close> on integer arguments: no argument gives 0, one argument
  gives that integer, and more are refused (a base needs a string).
\<close>

definition int_new :: "int list \<Rightarrow> error + int" where
  "int_new args = (case args of [] \<Rightarrow> Inr 0 | [x] \<Rightarrow> Inr x | _ \<Rightarrow> Inl TypeError)"

text \<open>
  \<^verbatim>\<open>SequentialEnum.__new__(cls, *args)\<close> as a whole, for the member named \<open>nm\<close>:
  \<^verbatim>\<open>value = len(cls.__members__)\<close>, \<^verbatim>\<open>obj = int.__new__(cls, *args)\<close>,
  \<^verbatim>\<open>obj._value_ = value\<close>. A member declared \<^verbatim>\<open>NAME = ()\<close> has no arguments.
\<close>

definition SequentialEnum_member ::
  "enum_member list \<Rightarrow> string \<Rightarrow> int list \<Rightarrow> error + int_enum_member" where
  "SequentialEnum_member members nm args =
     (let v = SequentialEnum_new members
      in case int_new args of
           Inl e \<Rightarrow> Inl e
         | Inr obj \<Rightarrow> Inr \<lparr>member_name = nm, member_value = v, member_int = obj\<rparr>)"


text \<open>
  \<^verbatim>\<open>EnumField.__init__\<close>. The default value is a member object, and the f-string
  \<^verbatim>\<open>f"{default_value:0{width}b}"\<close> formats it as the integer it is: the \<^verbatim>\<open>format\<close> of an
  \<^verbatim>\<open>IntEnum\<close> member is \<^verbatim>\<open>int.__format__\<close> on the member itself (Python 3.11 and
  later; older versions formatted \<^verbatim>\<open>_value_\<close>, which is the same integer for every
  member whose integer is its value).
\<close>

definition EnumField ::
  "string \<Rightarrow> int \<Rightarrow> string \<Rightarrow> enum_member list \<Rightarrow> int_enum_member \<Rightarrow> bit_vector" where
  "EnumField nm base descr enum dflt =
     (let w = enum_bit_width enum
      in BitVector nm base descr w (format_0b w (member_int dflt)) enum)"

section \<open>Facts about the model\<close>

subsection \<open>Register arrays\<close>

lemma scenario_array_constructed: "constructed (scenario_array base)"
proof -
  define a0 where "a0 = \<lparr>atomic = Some ''row'', name = ''dummies'', base_index = base,
    array_length = 3, description = '''', registers = []\<rparr>"
  have "RegisterArray ''dummies'' base 3 '''' (Some ''row'') = Inr a0"
    by (simp add: RegisterArray_def a0_def)
  then have c0: "constructed a0"
    by (rule constructed.init)
  have c1: "constructed (snd (append_register a0 ''first'' ''r_w'' ''''))"
    using c0 by (rule constructed.append)
  have "constructed (snd (append_register (snd (append_register a0 ''first'' ''r_w'' ''''))
          ''second'' ''r_w'' ''''))"
    using c1 by (rule constructed.append)
  moreover have "snd (append_register (snd (append_register a0 ''first'' ''r_w'' ''''))
          ''second'' ''r_w'' '''') = scenario_array base"
    by (simp add: append_register_def mode_conflict_def truthy_def a0_def scenario_array_def
        Register_def Let_def)
  ultimately show ?thesis by simp
qed

lemma append_register_registers:
  "registers (snd (append_register ra nm mode descr)) =
     (if mode_conflict ra mode then registers ra
      else registers ra @ [Register nm (int (length (registers ra))) mode descr])"
  by (simp add: append_register_def Let_def)

text \<open>In an array built by the program, a register's index is its position in the array.\<close>

lemma constructed_indices:
  "constructed ra \<Longrightarrow> i < length (registers ra) \<Longrightarrow> reg_index (registers ra ! i) = int i"
proof (induction arbitrary: i rule: constructed.induct)
  case (init nm base len descr atom ra)
  then show ?case
    by (auto simp: RegisterArray_def split: if_splits)
next
  case (append ra nm mode descr)
  show ?case
  proof (cases "mode_conflict ra mode")
    case True
    with append show ?thesis
      by (simp add: append_register_registers)
  next
    case False
    with append show ?thesis
      by (auto simp: append_register_registers nth_append Register_def less_Suc_eq)
  qed
qed

lemma constructed_atomic:
  "constructed ra \<Longrightarrow> atomic ra = None \<or> atomic ra = Some ''row'' \<or> atomic ra = Some ''all''"
proof (induction rule: constructed.induct)
  case (init nm base len descr atom ra)
  then show ?case
    by (auto simp: RegisterArray_def split: if_splits)
next
  case (append ra nm mode descr)
  then show ?case
    by (auto simp: append_register_def Let_def)
qed

lemma find_register_absent:
  "(\<forall>r \<in> set rs. reg_name r \<noteq> nm) \<Longrightarrow> find_register rs nm = Inl (ValueError RegisterNotFound)"
  by (induction rs) auto

lemma find_register_first:
  "r \<in> set rs \<Longrightarrow> reg_name r = nm \<Longrightarrow>
     \<exists>i < length rs. find_register rs nm = Inr (rs ! i) \<and> reg_name (rs ! i) = nm
       \<and> (\<forall>j < i. reg_name (rs ! j) \<noteq> nm)"
proof (induction rs)
  case Nil
  then show ?case by simp
next
  case (Cons x xs)
  show ?case
  proof (cases "reg_name x = nm")
    case True
    then have "find_register (x # xs) nm = Inr ((x # xs) ! 0) \<and> reg_name ((x # xs) ! 0) = nm"
      by simp
    then show ?thesis by blast
  next
    case False
    with Cons.prems have "r \<in> set xs" by auto
    from Cons.IH [OF this Cons.prems(2)] obtain i where
      i: "i < length xs" "find_register xs nm = Inr (xs ! i)" "reg_name (xs ! i) = nm"
        "\<forall>j < i. reg_name (xs ! j) \<noteq> nm"
      by blast
    have "\<forall>j < Suc i. reg_name ((x # xs) ! j) \<noteq> nm"
      using False i(4) by (auto simp: nth_Cons split: nat.splits)
    moreover have "Suc i < length (x # xs)" using i(1) by simp
    moreover have "find_register (x # xs) nm = Inr ((x # xs) ! Suc i)"
      using False i(2) by simp
    moreover have "reg_name ((x # xs) ! Suc i) = nm" using i(3) by simp
    ultimately show ?thesis by blast
  qed
qed

subsection \<open>Enumerations\<close>

lemma declare_members_eq:
  "declare_members members names =
     (if distinct names \<and> set names \<inter> fst ` set members = {}
      then Inr (members @ zip names (map int [length members ..< length members + length names]))
      else Inl TypeError)"
proof (induction names arbitrary: members)
  case Nil
  then show ?case by simp
next
  case (Cons nm rest)
  have z: "zip (nm # rest) (map int [length members ..< length members + length (nm # rest)])
      = (nm, int (length members))
        # zip rest (map int [Suc (length members) ..< Suc (length members) + length rest])"
    by (simp add: upt_conv_Cons del: upt_Suc)
  show ?case
    unfolding z by (auto simp: Cons.IH SequentialEnum_new_def simp del: upt_Suc)
qed

text \<open>\<open>ceil_log2 n\<close> is the least \<open>w\<close> with \<open>n \<le> 2 ^ w\<close>.\<close>

lemma ceil_log2_upper: "n \<le> 2 ^ ceil_log2 n"
proof (induction n rule: ceil_log2.induct)
  case (1 n)
  show ?case
  proof (cases "n \<le> 1")
    case True
    then show ?thesis by (simp add: ceil_log2.simps [of n])
  next
    case False
    from "1" [OF False] have "(n + 1) div 2 \<le> 2 ^ ceil_log2 ((n + 1) div 2)" .
    then have "n \<le> 2 * 2 ^ ceil_log2 ((n + 1) div 2)" by linarith
    with False show ?thesis by (simp add: ceil_log2.simps [of n])
  qed
qed

lemma ceil_log2_pos: "1 < k \<Longrightarrow> 0 < ceil_log2 k"
  by (subst ceil_log2.simps) simp

lemma ceil_log2_lower: "1 < n \<Longrightarrow> 2 ^ (ceil_log2 n - 1) < n"
proof (induction n rule: ceil_log2.induct)
  case (1 n)
  define m where "m = (n + 1) div 2"
  define c where "c = ceil_log2 m"
  from "1.prems" have big: "\<not> n \<le> 1" by simp
  then have step: "ceil_log2 n = Suc c"
    by (subst ceil_log2.simps) (simp add: c_def m_def)
  have "(2::nat) ^ c < n"
  proof (cases "1 < m")
    case True
    then have "2 ^ (c - 1) < m"
      using "1.IH" [OF big] by (simp add: c_def m_def)
    moreover have "0 < c"
      using True by (simp add: c_def ceil_log2_pos)
    then have "(2::nat) ^ c = 2 * 2 ^ (c - 1)"
      by (cases c) simp_all
    moreover have "2 * m \<le> n + 1"
      by (simp add: m_def)
    ultimately show ?thesis by linarith
  next
    case False
    then have "c = 0"
      by (simp add: c_def ceil_log2.simps [of m])
    with "1.prems" show ?thesis by simp
  qed
  with step show ?case by simp
qed

subsection \<open>Binary strings\<close>











section \<open>Start index of a repetition\<close>

text \<open>
  C1. For every register array and every \<open>array_index\<close> with
  \<open>0 \<le> array_index < length\<close>, \<open>get_start_index\<close> returns
  \<open>base_index + array_index * (number of appended registers)\<close>; in particular, in an
  array of length 3 with 2 registers, repetition 0 starts at \<open>base_index\<close> and repetition 2
  at \<open>base_index + 4\<close>.
\<close>

theorem get_start_index_in_range:
  "(0 \<le> array_index \<and> array_index < array_length ra \<longrightarrow>
      get_start_index ra array_index
        = Inr (base_index ra + array_index * int (length (registers ra))))
   \<and> (array_length ra = 3 \<and> length (registers ra) = 2 \<longrightarrow>
      get_start_index ra 0 = Inr (base_index ra)
      \<and> get_start_index ra 2 = Inr (base_index ra + 4))"
  by (simp add: get_start_index_def)

theorem get_start_index_in_range_witness:
  "get_start_index (scenario_array 10) 0 = Inr 10
   \<and> get_start_index (scenario_array 10) 1 = Inr 12
   \<and> get_start_index (scenario_array 10) 2 = Inr 14"
  using get_start_index_in_range [of 1 "scenario_array 10"]
  by (simp add: scenario_array_def)

section \<open>The mode check of \<open>append_register\<close>\<close>

text \<open>
  C2. In a register array whose atomicity is "row" or "all" and which already holds a
  register, \<open>append_register\<close> with a mode different from the first register's mode fails
  (the \<open>ValueError\<close> of the mode check); with a mode equal to the first register's mode,
  or in an array with atomicity none, it succeeds and returns the new register.
\<close>

theorem append_register_mode_check:
  "((atomic ra = Some ''row'' \<or> atomic ra = Some ''all'') \<and> registers ra = first # rest
      \<and> mode \<noteq> reg_mode first \<longrightarrow>
      fst (append_register ra nm mode descr) = Inl (ValueError ModeMismatch))
   \<and> (registers ra = first # rest \<and> mode = reg_mode first \<longrightarrow>
      fst (append_register ra nm mode descr)
        = Inr (Register nm (int (length (registers ra))) mode descr))
   \<and> (atomic ra = None \<longrightarrow>
      fst (append_register ra nm mode descr)
        = Inr (Register nm (int (length (registers ra))) mode descr))"
  by (auto simp: append_register_def mode_conflict_def truthy_def Let_def
      split: list.splits option.splits)

theorem append_register_mode_check_witness:
  "fst (append_register (scenario_array 10) ''third'' ''r'' '''') = Inl (ValueError ModeMismatch)
   \<and> fst (append_register (scenario_array 10) ''third'' ''r_w'' '''')
       = Inr (Register ''third'' 2 ''r_w'' '''')
   \<and> fst (append_register ((scenario_array 10)\<lparr>atomic := None\<rparr>) ''third'' ''r'' '''')
       = Inr (Register ''third'' 2 ''r'' '''')"
proof -
  have a: "atomic (scenario_array 10) = Some ''row''"
    and r: "registers (scenario_array 10)
              = Register ''first'' 0 ''r_w'' '''' # [Register ''second'' 1 ''r_w'' '''']"
    and n: "atomic ((scenario_array 10)\<lparr>atomic := None\<rparr>) = None"
    and l: "registers ((scenario_array 10)\<lparr>atomic := None\<rparr>) = registers (scenario_array 10)"
    by (simp_all add: scenario_array_def)
  have m: "reg_mode (Register ''first'' 0 ''r_w'' '''') = ''r_w''"
    by (simp add: Register_def)
  show ?thesis
    using append_register_mode_check
        [of "scenario_array 10" "Register ''first'' 0 ''r_w'' ''''"
          "[Register ''second'' 1 ''r_w'' '''']" "''r''" "''third''" "''''"]
      append_register_mode_check
        [of "scenario_array 10" "Register ''first'' 0 ''r_w'' ''''"
          "[Register ''second'' 1 ''r_w'' '''']" "''r_w''" "''third''" "''''"]
      append_register_mode_check
        [of "(scenario_array 10)\<lparr>atomic := None\<rparr>" _ _ "''r''" "''third''" "''''"]
    by (simp add: a r n l m)
qed

section \<open>Indices out of range\<close>

text \<open>
  C3, as amended. \<open>get_start_index\<close> fails (the \<open>ValueError\<close> of the range check) for
  every \<open>array_index \<ge> length\<close> and for no other index: an index below the length,
  negative ones included, is not rejected, and the call returns
  \<open>base_index + array_index * (number of appended registers)\<close>.
\<close>

theorem get_start_index_fails_above:
  "(array_length ra \<le> array_index \<longrightarrow>
      get_start_index ra array_index = Inl (ValueError IndexOutOfRange))
   \<and> (array_index < array_length ra \<longrightarrow>
      get_start_index ra array_index
        = Inr (base_index ra + array_index * int (length (registers ra))))"
  by (simp add: get_start_index_def)

theorem get_start_index_fails_above_witness:
  "get_start_index (scenario_array 10) 3 = Inl (ValueError IndexOutOfRange)
   \<and> get_start_index (scenario_array 10) (- 1) = Inr 8"
proof -
  have l: "array_length (scenario_array 10) = 3" and b: "base_index (scenario_array 10) = 10"
    and n: "length (registers (scenario_array 10)) = 2"
    by (simp_all add: scenario_array_def)
  show ?thesis
    using get_start_index_fails_above [of "scenario_array 10" 3]
      get_start_index_fails_above [of "scenario_array 10" "- 1"]
    by (simp add: l b n)
qed

text \<open>
  The claim as written asks for a failure at every negative index too. In the array of
  scenario 2 at base 10, \<open>get_start_index(-1)\<close> returns 8.
\<close>

theorem get_start_index_negative_counterexample:
  "(- 1 :: int) < 0
   \<and> get_start_index (scenario_array 10) (- 1) \<noteq> Inl (ValueError IndexOutOfRange)
   \<and> get_start_index (scenario_array 10) (- 1) = Inr 8"
  by (simp add: get_start_index_def scenario_array_def)

section \<open>The highest occupied index\<close>

text \<open>
  C4. The property \<open>index\<close> of a register array equals
  \<open>base_index + length * (number of appended registers) - 1\<close>; when the array has a
  repetition, that is the last address of the last one.
\<close>

theorem index_highest:
  "index ra = base_index ra + array_length ra * int (length (registers ra)) - 1
   \<and> (0 < array_length ra \<longrightarrow>
        get_start_index ra (array_length ra - 1)
          = Inr (index ra - (int (length (registers ra)) - 1)))"
  by (simp add: index_def get_start_index_def algebra_simps)

theorem index_highest_witness:
  "index (scenario_array 10) = 15 \<and> get_start_index (scenario_array 10) 2 = Inr 14"
proof -
  have l: "array_length (scenario_array 10) = 3" and b: "base_index (scenario_array 10) = 10"
    and n: "length (registers (scenario_array 10)) = 2"
    by (simp_all add: scenario_array_def)
  show ?thesis
    using index_highest [of "scenario_array 10"] by (simp add: l b n)
qed

section \<open>Names in a register array\<close>

text \<open>
  C5, as amended. \<open>append_register\<close> makes no check of the name. Its only failure is the
  mode conflict, and with a name equal to that of a register already appended it succeeds
  whenever the mode check passes: the array then holds two registers of that name.
\<close>

theorem append_register_ignores_name:
  "(fst (append_register ra nm mode descr) = Inl e \<longrightarrow>
      e = ValueError ModeMismatch \<and> registers ra \<noteq> [] \<and> truthy (atomic ra)
      \<and> mode \<noteq> reg_mode (hd (registers ra)))
   \<and> (r \<in> set (registers ra) \<and> reg_name r = nm
        \<and> (mode = reg_mode (hd (registers ra)) \<or> atomic ra = None) \<longrightarrow>
      fst (append_register ra nm mode descr)
        = Inr (Register nm (int (length (registers ra))) mode descr)
      \<and> registers (snd (append_register ra nm mode descr))
        = registers ra @ [Register nm (int (length (registers ra))) mode descr])"
  by (auto simp: append_register_def mode_conflict_def truthy_def Let_def
      split: list.splits option.splits)

theorem append_register_ignores_name_witness:
  "Register ''first'' 0 ''r_w'' '''' \<in> set (registers (scenario_array 10))
   \<and> fst (append_register (scenario_array 10) ''first'' ''r_w'' '''')
       = Inr (Register ''first'' 2 ''r_w'' '''')
   \<and> registers (snd (append_register (scenario_array 10) ''first'' ''r_w'' ''''))
       = [Register ''first'' 0 ''r_w'' '''', Register ''second'' 1 ''r_w'' '''',
          Register ''first'' 2 ''r_w'' '''']"
proof -
  have r: "registers (scenario_array 10)
             = [Register ''first'' 0 ''r_w'' '''', Register ''second'' 1 ''r_w'' '''']"
    by (simp add: scenario_array_def)
  have m: "reg_mode (Register ''first'' 0 ''r_w'' '''') = ''r_w''"
    and n: "reg_name (Register ''first'' 0 ''r_w'' '''') = ''first''"
    by (simp_all add: Register_def)
  show ?thesis
    using append_register_ignores_name
        [of "scenario_array 10" "''first''" "''r_w''" "''''" _ "Register ''first'' 0 ''r_w'' ''''"]
    by (simp add: r m n)
qed

text \<open>
  The claim as written asks for a failure. The array of scenario 2 holds a register named
  \<open>first\<close>; appending another register of that name succeeds.
\<close>

theorem append_register_duplicate_counterexample:
  "reg_name (registers (scenario_array 10) ! 0) = ''first''
   \<and> fst (append_register (scenario_array 10) ''first'' ''r_w'' '''')
       = Inr (Register ''first'' 2 ''r_w'' '''')"
  by (simp add: append_register_def mode_conflict_def truthy_def Let_def scenario_array_def
      Register_def)

section \<open>Looking a register up\<close>

text \<open>
  C8. In a register array built by the program, after a successful
  \<open>append_register(name, mode, description)\<close> the call \<open>get_register(name)\<close> returns a
  register of that name whose index is its position in the array, that is the number of
  registers appended before it; it is the first register of that name, and so the register
  just appended, with the number of registers the array had before the call as its index,
  when no earlier register has the name. \<open>get_register(name)\<close> for a name that no
  register of the array has fails (the \<open>ValueError\<close> of the lookup).
\<close>

theorem get_register_after_append:
  "(constructed ra \<and> fst (append_register ra nm mode descr) = Inr r \<longrightarrow>
      (\<exists>g i. get_register (snd (append_register ra nm mode descr)) nm = Inr g
         \<and> reg_name g = nm
         \<and> i < length (registers (snd (append_register ra nm mode descr)))
         \<and> registers (snd (append_register ra nm mode descr)) ! i = g
         \<and> reg_index g = int i
         \<and> (\<forall>j < i. reg_name (registers (snd (append_register ra nm mode descr)) ! j) \<noteq> nm))
      \<and> ((\<forall>x \<in> set (registers ra). reg_name x \<noteq> nm) \<longrightarrow>
           get_register (snd (append_register ra nm mode descr)) nm = Inr r
           \<and> reg_name r = nm \<and> reg_index r = int (length (registers ra))))
   \<and> ((\<forall>x \<in> set (registers ra). reg_name x \<noteq> nm) \<longrightarrow>
        get_register ra nm = Inl (ValueError RegisterNotFound))"
proof -
  let ?ra' = "snd (append_register ra nm mode descr)"
  have absent: "get_register ra nm = Inl (ValueError RegisterNotFound)"
    if "\<forall>x \<in> set (registers ra). reg_name x \<noteq> nm"
    using that by (simp add: get_register_def find_register_absent)
  have present: "\<exists>g i. get_register ?ra' nm = Inr g \<and> reg_name g = nm
      \<and> i < length (registers ?ra') \<and> registers ?ra' ! i = g \<and> reg_index g = int i
      \<and> (\<forall>j < i. reg_name (registers ?ra' ! j) \<noteq> nm)"
    and fresh: "(\<forall>x \<in> set (registers ra). reg_name x \<noteq> nm) \<longrightarrow>
      get_register ?ra' nm = Inr r \<and> reg_name r = nm
      \<and> reg_index r = int (length (registers ra))"
    if a: "constructed ra \<and> fst (append_register ra nm mode descr) = Inr r"
  proof -
    from a have ok: "\<not> mode_conflict ra mode"
      by (auto simp: append_register_def)
    then have r: "r = Register nm (int (length (registers ra))) mode descr"
      using a by (simp add: append_register_def Let_def)
    have regs: "registers ?ra' = registers ra @ [r]"
      using ok r by (simp add: append_register_registers)
    have c': "constructed ?ra'"
      using a by (simp add: constructed.append)
    have named: "reg_name r = nm"
      using r by (simp add: Register_def)
    have "r \<in> set (registers ?ra')"
      using regs by simp
    from find_register_first [OF this named] obtain i where
      i: "i < length (registers ?ra')"
        "find_register (registers ?ra') nm = Inr (registers ?ra' ! i)"
        "reg_name (registers ?ra' ! i) = nm" "\<forall>j < i. reg_name (registers ?ra' ! j) \<noteq> nm"
      by blast
    have "reg_index (registers ?ra' ! i) = int i"
      using c' i(1) by (rule constructed_indices)
    with i show "\<exists>g i. get_register ?ra' nm = Inr g \<and> reg_name g = nm
        \<and> i < length (registers ?ra') \<and> registers ?ra' ! i = g \<and> reg_index g = int i
        \<and> (\<forall>j < i. reg_name (registers ?ra' ! j) \<noteq> nm)"
      unfolding get_register_def by blast
    have last: "find_register (xs @ [r]) nm = Inr r"
      if "\<forall>x \<in> set xs. reg_name x \<noteq> nm" for xs
      using that named by (induction xs) auto
    show "(\<forall>x \<in> set (registers ra). reg_name x \<noteq> nm) \<longrightarrow>
        get_register ?ra' nm = Inr r \<and> reg_name r = nm
        \<and> reg_index r = int (length (registers ra))"
      using last [of "registers ra"] regs r by (simp add: get_register_def Register_def)
  qed
  from absent present fresh show ?thesis
    by blast
qed

theorem get_register_after_append_witness:
  "constructed (scenario_array 10)
   \<and> get_register (snd (append_register (scenario_array 10) ''third'' ''r_w'' '''')) ''third''
       = Inr (Register ''third'' 2 ''r_w'' '''')
   \<and> reg_index (Register ''third'' 2 ''r_w'' '''') = 2
   \<and> get_register (scenario_array 10) ''third'' = Inl (ValueError RegisterNotFound)"
proof -
  have c: "constructed (scenario_array 10)"
    by (rule scenario_array_constructed)
  have a: "fst (append_register (scenario_array 10) ''third'' ''r_w'' '''')
             = Inr (Register ''third'' 2 ''r_w'' '''')"
    by (simp add: append_register_def mode_conflict_def truthy_def Let_def scenario_array_def
        Register_def)
  have f: "\<forall>x \<in> set (registers (scenario_array 10)). reg_name x \<noteq> ''third''"
    by (simp add: scenario_array_def Register_def)
  show ?thesis
    using get_register_after_append
        [of "scenario_array 10" "''third''" "''r_w''" "''''" "Register ''third'' 2 ''r_w'' ''''"]
      c a f
    by (simp add: Register_def)
qed

section \<open>A call that raises changes nothing\<close>

text \<open>
  C9. If \<open>append_register\<close> raises, the array is as it was before the call: its name, base
  index, length, atomicity and registers are unchanged. If it succeeds, the only change is
  the new register at the end of the registers.
\<close>

theorem append_register_all_or_nothing:
  "(fst (append_register ra nm mode descr) = Inl e \<longrightarrow>
      snd (append_register ra nm mode descr) = ra)
   \<and> (fst (append_register ra nm mode descr) = Inr r \<longrightarrow>
      snd (append_register ra nm mode descr) = ra\<lparr>registers := registers ra @ [r]\<rparr>
      \<and> r = Register nm (int (length (registers ra))) mode descr
      \<and> name (snd (append_register ra nm mode descr)) = name ra
      \<and> base_index (snd (append_register ra nm mode descr)) = base_index ra
      \<and> array_length (snd (append_register ra nm mode descr)) = array_length ra
      \<and> atomic (snd (append_register ra nm mode descr)) = atomic ra
      \<and> description (snd (append_register ra nm mode descr)) = description ra
      \<and> take (length (registers ra)) (registers (snd (append_register ra nm mode descr)))
          = registers ra)"
  by (auto simp: append_register_def Let_def)

theorem append_register_all_or_nothing_witness:
  "fst (append_register (scenario_array 10) ''third'' ''r'' '''') = Inl (ValueError ModeMismatch)
   \<and> snd (append_register (scenario_array 10) ''third'' ''r'' '''') = scenario_array 10
   \<and> fst (append_register (scenario_array 10) ''third'' ''r_w'' '''')
       = Inr (Register ''third'' 2 ''r_w'' '''')
   \<and> registers (snd (append_register (scenario_array 10) ''third'' ''r_w'' ''''))
       = registers (scenario_array 10) @ [Register ''third'' 2 ''r_w'' '''']"
proof -
  have a: "fst (append_register (scenario_array 10) ''third'' ''r'' '''')
             = Inl (ValueError ModeMismatch)"
    and b: "fst (append_register (scenario_array 10) ''third'' ''r_w'' '''')
             = Inr (Register ''third'' 2 ''r_w'' '''')"
    by (simp_all add: append_register_def mode_conflict_def truthy_def Let_def
        scenario_array_def Register_def)
  show ?thesis
    using append_register_all_or_nothing
        [of "scenario_array 10" "''third''" "''r''" "''''" "ValueError ModeMismatch"]
      append_register_all_or_nothing
        [of "scenario_array 10" "''third''" "''r_w''" "''''" _ "Register ''third'' 2 ''r_w'' ''''"]
      a b
    by simp
qed

section \<open>The enumeration of the tests\<close>

text \<open>
  C6. For the enumeration with the four members of declared values 2, 3, 6 and 12
  (distinct, and not the positions 0 to 3, so not sequential): the bit width is 2; \<open>convert_to_unsigned_binary\<close> maps each member to its 0-based position
  in declaration order, the member of value 12 to the code 3;
  \<open>convert_from_unsigned_binary\<close> maps the codes 0 to 3 back to the members and fails on
  the code 4, which no member has.
\<close>

theorem example_enum_scenario:
  "length ExampleEnum = 4
   \<and> map snd ExampleEnum = [2, 3, 6, 12]
   \<and> distinct (map snd ExampleEnum)
   \<and> map snd ExampleEnum \<noteq> map int [0 ..< length ExampleEnum]
   \<and> enum_bit_width ExampleEnum = 2
   \<and> map (convert_to_unsigned_binary ExampleEnum 2) ExampleEnum = [Inr 0, Inr 1, Inr 2, Inr 3]
   \<and> convert_to_unsigned_binary ExampleEnum 2 (''D'', 12) = Inr 3
   \<and> map (convert_from_unsigned_binary ExampleEnum 2) [0, 1, 2, 3] = map Inr ExampleEnum
   \<and> convert_from_unsigned_binary ExampleEnum 2 4 = Inl (ValueError CodeHasNoMember)"
proof -
  have "enum_bit_width ExampleEnum = 2"
    by code_simp
  then show ?thesis
    by (simp add: convert_to_unsigned_binary_def convert_from_unsigned_binary_def ExampleEnum_def
        upt_rec)
qed

section \<open>Sequential enumerations\<close>

text \<open>
  C7. A class declared through \<open>SequentialEnum\<close> with \<open>n\<close> (distinct) member names has
  \<open>n\<close> members, and the \<open>i\<close>-th member in declaration order has the value \<open>i\<close>: the
  values are 0, 1, ..., \<open>n - 1\<close>.
\<close>

theorem sequential_enum_values:
  "(distinct names \<longrightarrow>
      sequential_enum_class names = Inr (zip names (map int [0 ..< length names])))
   \<and> (sequential_enum_class names = Inr members \<longrightarrow>
      length members = length names
      \<and> (\<forall>i < length names. members ! i = (names ! i, int i))
      \<and> map snd members = map int [0 ..< length names])"
  by (auto simp: sequential_enum_class_def declare_members_eq split: if_splits)

theorem sequential_enum_values_witness:
  "distinct [''A'', ''B'', ''C'', ''D'']
   \<and> sequential_enum_class [''A'', ''B'', ''C'', ''D'']
       = Inr [(''A'', 0), (''B'', 1), (''C'', 2), (''D'', 3)]
   \<and> [(''A'', 0), (''B'', 1), (''C'', 2), (''D'', 3 :: int)] ! 3 = (''D'', 3)"
proof -
  have d: "distinct [''A'', ''B'', ''C'', ''D'']"
    by simp
  have u: "[0 ..< 4] = [0, 1, 2, 3]"
    by (simp add: upt_rec)
  have c: "sequential_enum_class [''A'', ''B'', ''C'', ''D'']
      = Inr [(''A'', 0), (''B'', 1), (''C'', 2), (''D'', 3)]"
    using sequential_enum_values [of "[''A'', ''B'', ''C'', ''D'']"] d by (simp add: u)
  show ?thesis
    using sequential_enum_values
        [of "[''A'', ''B'', ''C'', ''D'']" "[(''A'', 0), (''B'', 1), (''C'', 2), (''D'', 3)]"] c d
    by simp
qed

section \<open>The default value of an enumeration field\<close>

text \<open>
  A member of a \<^verbatim>\<open>SequentialEnum\<close> class declared with \<^verbatim>\<open>()\<close> is the integer 0
  whatever its value: the fourth member has the value 3 and is stored as \<open>00\<close> in a field
  of its enumeration.
\<close>

lemma sequential_member_default_value:
  "SequentialEnum_member [(''A'', 0), (''B'', 1), (''C'', 2)] ''D'' []
     = Inr \<lparr>member_name = ''D'', member_value = 3, member_int = 0\<rparr>
   \<and> default_value (EnumField nm base descr [(''A'', 0), (''B'', 1), (''C'', 2), (''D'', 3)]
         \<lparr>member_name = ''D'', member_value = 3, member_int = 0\<rparr>) = ''00''"
proof -
  have "enum_bit_width [(''A'', 0), (''B'', 1), (''C'', 2), (''D'', 3)] = 2"
    by code_simp
  moreover have "format_0b 2 0 = ''00''"
    by code_simp
  ultimately show ?thesis
    by (simp add: SequentialEnum_member_def SequentialEnum_new_def int_new_def EnumField_def
        BitVector_def Let_def)
qed



end
